theory Spec2Isabelle
  imports Main
begin

section \<open>Python values, dict objects and effects\<close>

text \<open>
  The module \<^verbatim>\<open>homeassistant/components/discovery.py\<close> passes Python objects around.
  Immutable objects (None, booleans, integers, strings, tuples) and lists, which the module
  never mutates, are modelled by their content. A dict is a mutable object with an identity:
  it is a reference \<open>VRef a\<close> into a store of dict contents, so that an in-place update made
  through one reference is seen through every other reference to the same object.
  Dict keys are strings, as every key the module reads or writes is.
\<close>

type_synonym addr = nat

datatype pyval =
    VNone
  | VBool bool
  | VInt int
  | VStr string
  | VTuple "pyval list"
  | VList "pyval list"
  | VRef addr

type_synonym pydict = "string \<rightharpoonup> pyval"

datatype error =
    TypeError
  | KeyError
  | ImportError
  | ComponentError string

text \<open>
  The two closures the module hands to the event bus, with what each captured:
  \<^verbatim>\<open>discovery_event_listener\<close> (made by \<^verbatim>\<open>listen\<close>) holds the tuple of service names and
  the callback, here the callback's name; \<^verbatim>\<open>start_discovery\<close> (made by \<^verbatim>\<open>setup\<close>) holds the
  configuration that its \<^verbatim>\<open>new_service_listener\<close> will use.
\<close>

datatype handler =
    DiscoveryEventListener "string list" string
  | StartDiscovery pyval

text \<open>
  Calls that leave the module are recorded, in order, in a trace: on the logger, on the lock
  that \<^verbatim>\<open>setup\<close> creates, on the component loader, on the event bus, on a callback passed
  to \<^verbatim>\<open>listen\<close> and on the netdisco service.
\<close>

datatype effect =
    LockAcquire
  | LockRelease
  | LogInfo pyval pyval
  | SetupComponent pyval pyval
  | BusFire string pydict
  | BusListen string handler
  | BusListenOnce string handler
  | Callback string pyval pyval
  | SetLevelCritical string
  | NetdiscoCreate nat
  | NetdiscoAddListener pyval
  | NetdiscoStart

text \<open>
  The world: the contents of the dict objects (\<open>cells\<close>), the next unused address, and the
  trace of effects so far.
\<close>

record world =
  cells :: "addr \<Rightarrow> pydict"
  next_free :: addr
  trace :: "effect list"

definition emit :: "effect \<Rightarrow> world \<Rightarrow> world" where
  "emit e w = w\<lparr>trace := trace w @ [e]\<rparr>"

text \<open>A dict display \<^verbatim>\<open>{...}\<close> creates a new object.\<close>

definition new_dict :: "pydict \<Rightarrow> world \<Rightarrow> pyval \<times> world" where
  "new_dict d w =
     (VRef (next_free w),
      w\<lparr>cells := (cells w)(next_free w := d), next_free := Suc (next_free w)\<rparr>)"

text \<open>
  \<^verbatim>\<open>obj[key] = value\<close> with a string key: a dict is updated in place; a tuple, a string,
  a number, None (no item assignment) and a list (indices must be integers) raise TypeError.
\<close>

fun setitem :: "pyval \<Rightarrow> string \<Rightarrow> pyval \<Rightarrow> world \<Rightarrow> (error + unit) \<times> world" where
  "setitem (VRef a) k v w = (Inr (), w\<lparr>cells := (cells w)(a := (cells w a)(k \<mapsto> v))\<rparr>)"
| "setitem _ k v w = (Inl TypeError, w)"

text \<open>\<^verbatim>\<open>'...' + x\<close>: only a string can be appended to a string.\<close>

fun str_add :: "string \<Rightarrow> pyval \<Rightarrow> error + pyval" where
  "str_add s (VStr t) = Inr (VStr (s @ t))"
| "str_add s _ = Inl TypeError"

text \<open>\<^verbatim>\<open>key in d\<close>, \<^verbatim>\<open>d[key]\<close> (KeyError when absent) and \<^verbatim>\<open>d.get(key)\<close> (None when absent).\<close>

definition has_key :: "pydict \<Rightarrow> string \<Rightarrow> bool" where
  "has_key d k = (d k \<noteq> None)"

definition getitem :: "pydict \<Rightarrow> string \<Rightarrow> error + pyval" where
  "getitem d k = (case d k of None \<Rightarrow> Inl KeyError | Some v \<Rightarrow> Inr v)"

definition dict_get :: "pydict \<Rightarrow> string \<Rightarrow> pyval" where
  "dict_get d k = (case d k of None \<Rightarrow> VNone | Some v \<Rightarrow> v)"

definition new_effects :: "world \<Rightarrow> world \<Rightarrow> effect list" where
  "new_effects w w' = drop (length (trace w)) (trace w')"

text \<open>A dict key must be hashable: lists and dicts are not, a tuple is when its items are.\<close>

fun hashable :: "pyval \<Rightarrow> bool" where
  "hashable (VTuple xs) = (\<forall>x \<in> set xs. hashable x)"
| "hashable (VList xs) = False"
| "hashable (VRef a) = False"
| "hashable _ = True"

section \<open>Constants\<close>

text \<open>
  Modelled from the spec: the four names imported from \<^verbatim>\<open>homeassistant.const\<close>, which is
  not among the sources. The spec names the two fields of the event payload \<open>service\<close> and
  \<open>discovered\<close>, the channel PLATFORM_DISCOVERED and the application-start signal.
\<close>

definition ATTR_SERVICE :: string where
  "ATTR_SERVICE = ''service''"

definition ATTR_DISCOVERED :: string where
  "ATTR_DISCOVERED = ''discovered''"

definition EVENT_PLATFORM_DISCOVERED :: string where
  "EVENT_PLATFORM_DISCOVERED = ''platform_discovered''"

definition EVENT_HOMEASSISTANT_START :: string where
  "EVENT_HOMEASSISTANT_START = ''homeassistant_start''"

definition SCAN_INTERVAL :: nat where
  "SCAN_INTERVAL = 300"

definition LOAD_PLATFORM :: string where
  "LOAD_PLATFORM = ''load_platform''"

definition SERVICE_WEMO :: string where
  "SERVICE_WEMO = ''belkin_wemo''"

definition SERVICE_NETGEAR :: string where
  "SERVICE_NETGEAR = ''netgear_router''"

text \<open>
  The registry: each service name maps to a pair of a component name and a platform name
  or None.
\<close>

definition SERVICE_HANDLERS :: "(string \<times> (string \<times> string option)) list" where
  "SERVICE_HANDLERS =
     [(SERVICE_NETGEAR, (''device_tracker'', None)),
      (SERVICE_WEMO, (''wemo'', None)),
      (''philips_hue'', (''light'', Some ''hue'')),
      (''google_cast'', (''media_player'', Some ''cast'')),
      (''panasonic_viera'', (''media_player'', Some ''panasonic_viera'')),
      (''plex_mediaserver'', (''media_player'', Some ''plex'')),
      (''roku'', (''media_player'', Some ''roku'')),
      (''sonos'', (''media_player'', Some ''sonos'')),
      (''logitech_mediaserver'', (''media_player'', Some ''squeezebox''))]"

text \<open>The Python object a registry value is: a 2-tuple of a string and a string or None.\<close>

definition opt_str :: "string option \<Rightarrow> pyval" where
  "opt_str p = (case p of None \<Rightarrow> VNone | Some s \<Rightarrow> VStr s)"

definition route_tuple :: "string \<times> string option \<Rightarrow> pyval" where
  "route_tuple r = VTuple [VStr (fst r), opt_str (snd r)]"

text \<open>
  \<^verbatim>\<open>SERVICE_HANDLERS.get(service)\<close>: an unhashable argument raises TypeError; a hashable
  one that is not a string equals no key.
\<close>

definition handlers_get :: "pyval \<Rightarrow> error + (string \<times> string option) option" where
  "handlers_get service =
     (if \<not> hashable service then Inl TypeError
      else case service of
             VStr s \<Rightarrow> Inr (map_of SERVICE_HANDLERS s)
           | _ \<Rightarrow> Inr None)"

section \<open>The component loader\<close>

text \<open>
  \<^verbatim>\<open>bootstrap.setup_component(hass, domain, config)\<close> belongs to another module. It is a
  parameter of the model: given the domain and the configuration it either raises or returns
  a boolean, which this module ignores. The call is recorded before its outcome is known.
\<close>

type_synonym loader = "pyval \<Rightarrow> pyval \<Rightarrow> error + bool"

definition setup_component :: "loader \<Rightarrow> pyval \<Rightarrow> pyval \<Rightarrow> world \<Rightarrow> (error + unit) \<times> world" where
  "setup_component ldr domain config w =
     (case ldr domain config of
        Inl e \<Rightarrow> (Inl e, emit (SetupComponent domain config) w)
      | Inr b \<Rightarrow> (Inr (), emit (SetupComponent domain config) w))"

section \<open>discover and load_platform\<close>

text \<open>
  \<^verbatim>\<open>discover(hass, service, discovered=None, component=None, hass_config=None)\<close>.
  The event data is a new dict, recorded by content at the call of \<^verbatim>\<open>hass.bus.fire\<close>;
  a dict among its values stays a reference.
\<close>

definition discover ::
  "loader \<Rightarrow> pyval \<Rightarrow> pyval \<Rightarrow> pyval \<Rightarrow> pyval \<Rightarrow> world \<Rightarrow> (error + unit) \<times> world" where
  "discover ldr service discovered component hass_config w =
     (case (if component \<noteq> VNone then setup_component ldr component hass_config w
            else (Inr (), w)) of
        (Inl e, w1) \<Rightarrow> (Inl e, w1)
      | (Inr u, w1) \<Rightarrow>
          (let data = [ATTR_SERVICE \<mapsto> service];
               data = (if discovered \<noteq> VNone then data(ATTR_DISCOVERED \<mapsto> discovered)
                       else data)
           in (Inr (), emit (BusFire EVENT_PLATFORM_DISCOVERED data) w1)))"

text \<open>
  \<^verbatim>\<open>load_platform(hass, component, platform, info=None, hass_config=None)\<close>.
  With \<open>info\<close> None a new dict is made; otherwise the key is stored into the object that
  was passed. The service name is computed after that, then \<open>discover\<close> is called.
\<close>

definition load_platform ::
  "loader \<Rightarrow> pyval \<Rightarrow> pyval \<Rightarrow> pyval \<Rightarrow> pyval \<Rightarrow> world \<Rightarrow> (error + unit) \<times> world" where
  "load_platform ldr component platform info hass_config w =
     (case (if info = VNone
            then (let (r, w1) = new_dict [LOAD_PLATFORM \<mapsto> platform] w in (Inr r, w1))
            else (case setitem info LOAD_PLATFORM platform w of
                    (Inl e, w1) \<Rightarrow> (Inl e, w1)
                  | (Inr u, w1) \<Rightarrow> (Inr info, w1))) of
        (Inl e, w1) \<Rightarrow> (Inl e, w1)
      | (Inr info1, w1) \<Rightarrow>
          (case str_add (LOAD_PLATFORM @ ''.'') component of
             Inl e \<Rightarrow> (Inl e, w1)
           | Inr name \<Rightarrow> discover ldr name info1 component hass_config w1))"

section \<open>The dispatcher callback\<close>

text \<open>
  \<^verbatim>\<open>new_service_listener(service, info)\<close>, the closure made by \<^verbatim>\<open>setup(hass, config)\<close>;
  \<open>config\<close> is the configuration the closure captured. The body runs inside
  \<^verbatim>\<open>with lock:\<close>, so the lock is released on every way out, also when the body raises.
  The assignment \<^verbatim>\<open>info = SERVICE_HANDLERS.get(service)\<close> rebinds the parameter \<open>info\<close>:
  from there on \<open>info\<close> is the registry value (\<open>route_tuple\<close>), and that is what the two
  calls below pass. \<^verbatim>\<open>discover(hass, service, info, config)\<close> binds its third and fourth
  positional parameters, \<open>discovered\<close> and \<open>component\<close>; \<open>hass_config\<close> keeps its default.
\<close>

definition new_service_listener_body ::
  "loader \<Rightarrow> pyval \<Rightarrow> pyval \<Rightarrow> pyval \<Rightarrow> world \<Rightarrow> (error + unit) \<times> world" where
  "new_service_listener_body ldr config service info w =
     (let w1 = emit (LogInfo service info) w in
      case handlers_get service of
        Inl e \<Rightarrow> (Inl e, w1)
      | Inr None \<Rightarrow> (Inr (), w1)
      | Inr (Some route) \<Rightarrow>
          (let info = route_tuple route;
               component = VStr (fst route);
               platform = opt_str (snd route)
           in if platform = VNone
              then discover ldr service info config VNone w1
              else load_platform ldr component platform info config w1))"

definition new_service_listener ::
  "loader \<Rightarrow> pyval \<Rightarrow> pyval \<Rightarrow> pyval \<Rightarrow> world \<Rightarrow> (error + unit) \<times> world" where
  "new_service_listener ldr config service info w =
     (let (r, w1) = new_service_listener_body ldr config service info (emit LockAcquire w)
      in (r, emit LockRelease w1))"

section \<open>listen\<close>

text \<open>
  \<^verbatim>\<open>listen(hass, service, callback)\<close>. The argument \<open>service\<close> is one service name or a
  list or tuple of service names; both become a tuple of names.
\<close>

datatype service_arg = ServiceStr string | ServiceSeq "string list"

fun service_tuple :: "service_arg \<Rightarrow> string list" where
  "service_tuple (ServiceStr s) = [s]"
| "service_tuple (ServiceSeq xs) = xs"

text \<open>
  \<^verbatim>\<open>x in service\<close> on a tuple of strings: some item equals \<open>x\<close>, and only a string equals
  a string.
\<close>

definition in_tuple :: "pyval \<Rightarrow> string list \<Rightarrow> bool" where
  "in_tuple x service = (x \<in> set (map VStr service))"

text \<open>
  The closure \<^verbatim>\<open>discovery_event_listener(event)\<close>; \<open>data\<close> is the content of
  \<^verbatim>\<open>event.data\<close>. The condition is a short-circuit \<^verbatim>\<open>and\<close>; each subscript can raise
  KeyError. What the callback does is its own business: the call is recorded.
\<close>

definition discovery_event_listener ::
  "string list \<Rightarrow> string \<Rightarrow> pydict \<Rightarrow> world \<Rightarrow> (error + unit) \<times> world" where
  "discovery_event_listener service callback data w =
     (case (if has_key data ATTR_SERVICE
            then (case getitem data ATTR_SERVICE of
                    Inl e \<Rightarrow> Inl e
                  | Inr v \<Rightarrow> Inr (in_tuple v service))
            else Inr False) of
        Inl e \<Rightarrow> (Inl e, w)
      | Inr False \<Rightarrow> (Inr (), w)
      | Inr True \<Rightarrow>
          (case getitem data ATTR_SERVICE of
             Inl e \<Rightarrow> (Inl e, w)
           | Inr v \<Rightarrow> (Inr (), emit (Callback callback v (dict_get data ATTR_DISCOVERED)) w)))"

definition listen :: "service_arg \<Rightarrow> string \<Rightarrow> world \<Rightarrow> world" where
  "listen service callback w =
     emit (BusListen EVENT_PLATFORM_DISCOVERED
             (DiscoveryEventListener (service_tuple service) callback)) w"

section \<open>setup\<close>

text \<open>
  \<^verbatim>\<open>start_discovery(event)\<close>: creates the netdisco service with the scan interval, adds
  \<^verbatim>\<open>new_service_listener\<close> (identified by the configuration it captured) and starts
  the scan.
\<close>

definition start_discovery :: "pyval \<Rightarrow> pydict \<Rightarrow> world \<Rightarrow> (error + unit) \<times> world" where
  "start_discovery config event w =
     (Inr (), emit NetdiscoStart
                (emit (NetdiscoAddListener config) (emit (NetdiscoCreate SCAN_INTERVAL) w)))"

text \<open>
  \<^verbatim>\<open>setup(hass, config)\<close>, here \<open>discovery_setup\<close>. The import of netdisco inside the
  function raises ImportError when the package is not installed.
\<close>

definition discovery_setup :: "bool \<Rightarrow> pyval \<Rightarrow> world \<Rightarrow> (error + bool) \<times> world" where
  "discovery_setup netdisco_installed config w =
     (if \<not> netdisco_installed then (Inl ImportError, w)
      else (Inr True,
            emit (BusListenOnce EVENT_HOMEASSISTANT_START (StartDiscovery config))
              (emit (SetLevelCritical ''zeroconf'') w)))"

text \<open>Running a closure on an event.\<close>

fun run_handler :: "handler \<Rightarrow> pydict \<Rightarrow> world \<Rightarrow> (error + unit) \<times> world" where
  "run_handler (DiscoveryEventListener service callback) data w =
     discovery_event_listener service callback data w"
| "run_handler (StartDiscovery config) data w = start_discovery config data w"

section \<open>The event bus\<close>

text \<open>
  Modelled from the spec: the event bus of \<^verbatim>\<open>homeassistant/core.py\<close>, which is not among
  the sources. The spec describes it as a publish/subscribe primitive with persistent and
  one-shot listener registration and synchronous delivery in registration order. A bus is
  the list of its registrations: event type, one-shot flag, listener.
\<close>

type_synonym bus = "(string \<times> bool \<times> handler) list"

text \<open>
  Modelled from the spec: what a recorded call of \<^verbatim>\<open>hass.bus.listen\<close> or
  \<^verbatim>\<open>hass.bus.listen_once\<close> does to the bus.
\<close>

fun bus_register :: "effect \<Rightarrow> bus \<Rightarrow> bus" where
  "bus_register (BusListen t h) b = b @ [(t, False, h)]"
| "bus_register (BusListenOnce t h) b = b @ [(t, True, h)]"
| "bus_register e b = b"

definition bus_after :: "world \<Rightarrow> world \<Rightarrow> bus \<Rightarrow> bus" where
  "bus_after w w' b = fold bus_register (new_effects w w') b"

text \<open>
  Modelled from the spec: delivery runs the listeners one after the other; an exception of
  a listener ends the delivery.
\<close>

fun run_handlers :: "handler list \<Rightarrow> pydict \<Rightarrow> world \<Rightarrow> (error + unit) \<times> world" where
  "run_handlers [] data w = (Inr (), w)"
| "run_handlers (h # hs) data w =
     (case run_handler h data w of
        (Inl e, w1) \<Rightarrow> (Inl e, w1)
      | (Inr u, w1) \<Rightarrow> run_handlers hs data w1)"

text \<open>
  Modelled from the spec: firing an event of type \<open>t\<close> delivers it to the listeners
  registered for \<open>t\<close>, in registration order; the one-shot listeners for \<open>t\<close> are no longer
  registered afterwards.
\<close>

definition bus_fire ::
  "string \<Rightarrow> pydict \<Rightarrow> bus \<Rightarrow> world \<Rightarrow> ((error + unit) \<times> world) \<times> bus" where
  "bus_fire t data b w =
     (run_handlers (map (\<lambda>r. snd (snd r)) (filter (\<lambda>r. fst r = t) b)) data w,
      filter (\<lambda>r. \<not> (fst r = t \<and> fst (snd r))) b)"

section \<open>Reading a trace\<close>

text \<open>The events fired and the component loads among a list of effects, in order.\<close>

fun is_fire :: "effect \<Rightarrow> bool" where
  "is_fire (BusFire t d) = True"
| "is_fire _ = False"

fun is_load :: "effect \<Rightarrow> bool" where
  "is_load (SetupComponent c cfg) = True"
| "is_load _ = False"

definition events_fired :: "effect list \<Rightarrow> effect list" where
  "events_fired es = filter is_fire es"

definition component_loads :: "effect list \<Rightarrow> effect list" where
  "component_loads es = filter is_load es"

text \<open>
  What a subscriber reads in world \<open>w\<close> under the \<open>discovered\<close> key of a fired event, when
  that value is a dict.
\<close>

fun discovered_content :: "world \<Rightarrow> effect \<Rightarrow> pydict option" where
  "discovered_content w (BusFire t d) =
     (case d ATTR_DISCOVERED of Some (VRef a) \<Rightarrow> Some (cells w a) | _ \<Rightarrow> None)"
| "discovered_content w _ = None"

text \<open>
  Every fired event of the list comes after a component load; \<open>loaded\<close> says whether a load
  has been seen already.
\<close>

fun load_before_fire :: "bool \<Rightarrow> effect list \<Rightarrow> bool" where
  "load_before_fire loaded [] = True"
| "load_before_fire loaded (SetupComponent c cfg # es) = load_before_fire True es"
| "load_before_fire loaded (BusFire t d # es) = (loaded \<and> load_before_fire loaded es)"
| "load_before_fire loaded (e # es) = load_before_fire loaded es"

text \<open>The effects of the list that happen while the lock is held; \<open>held\<close> is its state.\<close>

fun while_locked :: "bool \<Rightarrow> effect list \<Rightarrow> effect list" where
  "while_locked held [] = []"
| "while_locked held (LockAcquire # es) = while_locked True es"
| "while_locked held (LockRelease # es) = while_locked False es"
| "while_locked held (e # es) =
     (if held then e # while_locked held es else while_locked held es)"

fun is_lock_op :: "effect \<Rightarrow> bool" where
  "is_lock_op LockAcquire = True"
| "is_lock_op LockRelease = True"
| "is_lock_op _ = False"

text \<open>The number of network scans started among a list of effects.\<close>

fun is_scan_start :: "effect \<Rightarrow> bool" where
  "is_scan_start NetdiscoStart = True"
| "is_scan_start _ = False"

definition scans_started :: "effect list \<Rightarrow> nat" where
  "scans_started es = length (filter is_scan_start es)"

text \<open>The registrations of a bus whose listener is a \<open>start_discovery\<close> closure.\<close>

fun is_start_discovery :: "handler \<Rightarrow> bool" where
  "is_start_discovery (StartDiscovery config) = True"
| "is_start_discovery _ = False"

definition scan_starters :: "bus \<Rightarrow> bus" where
  "scan_starters b = filter (\<lambda>r. is_start_discovery (snd (snd r))) b"

text \<open>The set of service names a caller of \<open>listen\<close> asks for.\<close>

fun requested :: "service_arg \<Rightarrow> string set" where
  "requested (ServiceStr s) = {s}"
| "requested (ServiceSeq xs) = set xs"

text \<open>
  The event data \<open>discover\<close> builds, and what \<open>discover\<close> and a listener add to the trace:
  closed forms used in the proofs below.
\<close>

definition event_data :: "pyval \<Rightarrow> pyval \<Rightarrow> pydict" where
  "event_data service discovered =
     (if discovered \<noteq> VNone
      then [ATTR_SERVICE \<mapsto> service, ATTR_DISCOVERED \<mapsto> discovered]
      else [ATTR_SERVICE \<mapsto> service])"

definition discover_effects ::
  "loader \<Rightarrow> pyval \<Rightarrow> pyval \<Rightarrow> pyval \<Rightarrow> pyval \<Rightarrow> effect list" where
  "discover_effects ldr service discovered component hass_config =
     (if component \<noteq> VNone
      then SetupComponent component hass_config #
             (case ldr component hass_config of
                Inl e \<Rightarrow> []
              | Inr b \<Rightarrow> [BusFire EVENT_PLATFORM_DISCOVERED (event_data service discovered)])
      else [BusFire EVENT_PLATFORM_DISCOVERED (event_data service discovered)])"

fun handler_effects :: "handler \<Rightarrow> pydict \<Rightarrow> effect list" where
  "handler_effects (DiscoveryEventListener service callback) data =
     (case data ATTR_SERVICE of
        None \<Rightarrow> []
      | Some v \<Rightarrow> if in_tuple v service
                  then [Callback callback v (dict_get data ATTR_DISCOVERED)] else [])"
| "handler_effects (StartDiscovery config) data =
     [NetdiscoCreate SCAN_INTERVAL, NetdiscoAddListener config, NetdiscoStart]"

section \<open>Example inputs\<close>

text \<open>A loader that loads every component.\<close>

definition loader_ok :: loader where
  "loader_ok domain config = Inr True"

text \<open>
  A world as the scanner's callback finds it: object 0 is the dict
  \<^verbatim>\<open>{"host": "10.0.0.5"}\<close> the scanner reports, object 1 is the (empty) configuration dict.
\<close>

definition scan_world :: world where
  "scan_world =
     \<lparr>cells = (\<lambda>a. Map.empty)(0 := [''host'' \<mapsto> VStr ''10.0.0.5'']),
      next_free = 2, trace = []\<rparr>"

text \<open>
  A caller passes object 0 as \<open>info\<close> to \<open>load_platform\<close>, and afterwards stores another
  host into its dict.
\<close>

definition after_load :: world where
  "after_load =
     snd (load_platform loader_ok (VStr ''media_player'') (VStr ''sonos'') (VRef 0) VNone
            scan_world)"

definition after_caller_update :: world where
  "after_caller_update = snd (setitem (VRef 0) ''host'' (VStr ''10.0.0.9'') after_load)"

text \<open>Event data with and without the two keys.\<close>

definition event_a :: pydict where
  "event_a = [ATTR_SERVICE \<mapsto> VStr ''a'', ATTR_DISCOVERED \<mapsto> VRef 0]"

definition event_c :: pydict where
  "event_c = [ATTR_SERVICE \<mapsto> VStr ''c'', ATTR_DISCOVERED \<mapsto> VRef 0]"

definition event_without_service :: pydict where
  "event_without_service = [ATTR_DISCOVERED \<mapsto> VRef 0]"

definition event_without_discovered :: pydict where
  "event_without_discovered = [ATTR_SERVICE \<mapsto> VStr ''a'']"

text \<open>A bus on which one discovery listener is registered.\<close>

definition listening_bus :: bus where
  "listening_bus =
     [(EVENT_PLATFORM_DISCOVERED, False, DiscoveryEventListener [''a'', ''b''] ''cb'')]"

section \<open>Properties\<close>

lemmas const_defs = ATTR_SERVICE_def ATTR_DISCOVERED_def EVENT_PLATFORM_DISCOVERED_def
  EVENT_HOMEASSISTANT_START_def LOAD_PLATFORM_def SERVICE_WEMO_def SERVICE_NETGEAR_def

lemma emit_simps:
  "trace (emit e w) = trace w @ [e]"
  "cells (emit e w) = cells w"
  "next_free (emit e w) = next_free w"
  by (simp_all add: emit_def)

subsection \<open>Traces of discover and load_platform\<close>

lemma discover_trace:
  "trace (snd (discover ldr service discovered component hass_config w)) =
     trace w @ discover_effects ldr service discovered component hass_config"
  by (simp add: discover_def discover_effects_def event_data_def setup_component_def emit_def
      split: sum.splits)

lemma discover_new_effects:
  "new_effects w (snd (discover ldr service discovered component hass_config w)) =
     discover_effects ldr service discovered component hass_config"
  by (simp add: new_effects_def discover_trace)

lemma load_platform_new_effects:
  "new_effects w (snd (load_platform ldr component platform info hass_config w)) =
     (case info of
        VNone \<Rightarrow> (case component of
                    VStr c \<Rightarrow> discover_effects ldr (VStr (LOAD_PLATFORM @ ''.'' @ c))
                                (VRef (next_free w)) component hass_config
                  | _ \<Rightarrow> [])
      | VRef a \<Rightarrow> (case component of
                    VStr c \<Rightarrow> discover_effects ldr (VStr (LOAD_PLATFORM @ ''.'' @ c))
                                (VRef a) component hass_config
                  | _ \<Rightarrow> [])
      | _ \<Rightarrow> [])"
  by (cases info; cases component)
     (simp_all add: load_platform_def new_dict_def new_effects_def discover_trace)

lemma discover_effects_ordered:
  "component \<noteq> VNone \<Longrightarrow>
     load_before_fire False (discover_effects ldr service discovered component hass_config)"
  by (simp add: discover_effects_def split: sum.splits)

lemma discover_effects_fired:
  "component \<noteq> VNone \<Longrightarrow>
     events_fired (discover_effects ldr service discovered component hass_config) \<noteq> [] \<Longrightarrow>
     \<exists>b. ldr component hass_config = Inr b"
  by (simp add: discover_effects_def events_fired_def split: sum.splits)

lemma discover_effects_no_lock:
  "\<not> list_ex is_lock_op (discover_effects ldr service discovered component hass_config)"
  by (simp add: discover_effects_def split: sum.splits)

subsection \<open>Dispatch of a registered service\<close>

text \<open>
  What the callback does for the registered services, whatever the scanner's info is: with
  a platform in the route it raises TypeError; without one, and with a configuration that
  is not None, it calls the loader on the configuration and fires the registry tuple.
\<close>

lemma dispatch_with_platform:
  assumes "map_of SERVICE_HANDLERS s = Some (c, Some p)"
  shows "new_service_listener ldr config (VStr s) info w =
           (Inl TypeError,
            w\<lparr>trace := trace w @ [LockAcquire, LogInfo (VStr s) info, LockRelease]\<rparr>)"
  using assms
  by (simp add: new_service_listener_def new_service_listener_body_def handlers_get_def
      opt_str_def route_tuple_def load_platform_def emit_def)

lemma dispatch_without_platform:
  assumes "map_of SERVICE_HANDLERS s = Some (c, None)" and "config \<noteq> VNone"
    and "ldr config VNone = Inr b"
  shows "new_service_listener ldr config (VStr s) info w =
           (Inr (),
            w\<lparr>trace := trace w @
              [LockAcquire,
               LogInfo (VStr s) info,
               SetupComponent config VNone,
               BusFire EVENT_PLATFORM_DISCOVERED
                 [ATTR_SERVICE \<mapsto> VStr s, ATTR_DISCOVERED \<mapsto> VTuple [VStr c, VNone]],
               LockRelease]\<rparr>)"
  using assms
  by (simp add: new_service_listener_def new_service_listener_body_def handlers_get_def
      opt_str_def route_tuple_def discover_def setup_component_def emit_def)

text \<open>
  C1. The claim: for a registered service whose route has no platform, the callback fires one
  event whose \<open>discovered\<close> field is the scanner's info and loads the component of the route.
  The code does not: at \<^verbatim>\<open>new_service_listener("belkin_wemo", {"host": "10.0.0.5"})\<close> the
  component load is called with the configuration dict in the place of the component name
  and None as configuration; when that call returns, the event carries the registry tuple
  \<^verbatim>\<open>("wemo", None)\<close> as \<open>discovered\<close>, and when it raises no event is fired.
\<close>

theorem wemo_dispatch_passes_route:
  "new_service_listener ldr (VRef 1) (VStr ''belkin_wemo'') (VRef 0) scan_world =
     (case ldr (VRef 1) VNone of
        Inl e \<Rightarrow>
          (Inl e,
           scan_world\<lparr>trace :=
             [LockAcquire,
              LogInfo (VStr ''belkin_wemo'') (VRef 0),
              SetupComponent (VRef 1) VNone,
              LockRelease]\<rparr>)
      | Inr b \<Rightarrow>
          (Inr (),
           scan_world\<lparr>trace :=
             [LockAcquire,
              LogInfo (VStr ''belkin_wemo'') (VRef 0),
              SetupComponent (VRef 1) VNone,
              BusFire EVENT_PLATFORM_DISCOVERED
                [ATTR_SERVICE \<mapsto> VStr ''belkin_wemo'',
                 ATTR_DISCOVERED \<mapsto> VTuple [VStr ''wemo'', VNone]],
              LockRelease]\<rparr>))"
  by (simp add: new_service_listener_def new_service_listener_body_def handlers_get_def
      SERVICE_HANDLERS_def const_defs opt_str_def route_tuple_def discover_def
      setup_component_def emit_def scan_world_def split: sum.splits)

text \<open>
  C2. The claim: for a registered service with a platform, the callback loads the component
  and fires one load-platform event that keeps the keys of the scanner's info. The code does
  not: at \<^verbatim>\<open>new_service_listener("sonos", {"host": "10.0.0.5"})\<close> it passes the registry tuple
  to \<open>load_platform\<close>, whose item assignment on a tuple raises TypeError before any component
  is loaded or any event fired.
\<close>

theorem sonos_dispatch_raises:
  "new_service_listener ldr (VRef 1) (VStr ''sonos'') (VRef 0) scan_world =
     (Inl TypeError,
      scan_world\<lparr>trace :=
        [LockAcquire, LogInfo (VStr ''sonos'') (VRef 0), LockRelease]\<rparr>)"
  by (simp add: new_service_listener_def new_service_listener_body_def handlers_get_def
      SERVICE_HANDLERS_def const_defs opt_str_def route_tuple_def load_platform_def
      emit_def scan_world_def)

subsection \<open>load_platform\<close>

lemma after_load_eq:
  "after_load =
     scan_world\<lparr>cells := (cells scan_world)
                   (0 := (cells scan_world 0)(LOAD_PLATFORM \<mapsto> VStr ''sonos'')),
       trace := trace scan_world @
         [SetupComponent (VStr ''media_player'') VNone,
          BusFire EVENT_PLATFORM_DISCOVERED
            [ATTR_SERVICE \<mapsto> VStr (LOAD_PLATFORM @ ''.'' @ ''media_player''),
             ATTR_DISCOVERED \<mapsto> VRef 0]]\<rparr>"
  by (simp add: after_load_def load_platform_def discover_def setup_component_def emit_def
      loader_ok_def)

text \<open>
  C3. The claim: \<open>load_platform\<close> builds the payload from a copy of \<open>info\<close>, so that the
  caller's dict is unchanged by the call and a later change of it does not reach the event.
  The code stores the key into the dict it was given and hands that same object to
  \<open>discover\<close>. With \<^verbatim>\<open>{"host": "10.0.0.5"}\<close> as \<open>info\<close>, the caller's dict has changed after
  the call, and when the caller then stores another host, a subscriber reading the payload
  of the fired event sees the new host.
\<close>

theorem load_platform_aliases_info:
  "cells after_load 0 \<noteq> cells scan_world 0
   \<and> discovered_content after_caller_update (last (trace after_load))
       \<noteq> discovered_content after_load (last (trace after_load))"
proof -
  have a: "cells after_load 0 LOAD_PLATFORM = Some (VStr ''sonos'')"
    by (simp add: after_load_eq)
  have b: "cells scan_world 0 LOAD_PLATFORM = None"
    by (simp add: scan_world_def const_defs)
  have l: "last (trace after_load) =
             BusFire EVENT_PLATFORM_DISCOVERED
               [ATTR_SERVICE \<mapsto> VStr (LOAD_PLATFORM @ ''.'' @ ''media_player''),
                ATTR_DISCOVERED \<mapsto> VRef 0]"
    by (simp add: after_load_eq)
  have c: "discovered_content after_load (last (trace after_load)) =
             Some (cells after_load 0)"
    by (simp add: l)
  have d: "discovered_content after_caller_update (last (trace after_load)) =
             Some (cells after_caller_update 0)"
    by (simp add: l)
  have e: "cells after_caller_update 0 ''host'' = Some (VStr ''10.0.0.9'')"
    by (simp add: after_caller_update_def)
  have f: "cells after_load 0 ''host'' = Some (VStr ''10.0.0.5'')"
    by (simp add: after_load_eq scan_world_def const_defs)
  from a b have "cells after_load 0 \<noteq> cells scan_world 0" by auto
  moreover from e f have "cells after_caller_update 0 \<noteq> cells after_load 0" by auto
  ultimately show ?thesis by (simp add: c d)
qed

text \<open>
  C3, amended. Called with a component name and a dict as \<open>info\<close>, when the loader returns,
  \<open>load_platform\<close> stores \<open>platform\<close> under the key \<open>load_platform\<close> in the caller's dict
  itself, leaves every other key and every other object as it was, and fires one event
  whose \<open>discovered\<close> value is that same object.
\<close>

theorem load_platform_updates_in_place:
  assumes "ldr (VStr c) hass_config = Inr b"
  shows "load_platform ldr (VStr c) platform (VRef a) hass_config w =
           (Inr (),
            w\<lparr>cells := (cells w)(a := (cells w a)(LOAD_PLATFORM \<mapsto> platform)),
              trace := trace w @
                [SetupComponent (VStr c) hass_config,
                 BusFire EVENT_PLATFORM_DISCOVERED
                   [ATTR_SERVICE \<mapsto> VStr (LOAD_PLATFORM @ ''.'' @ c),
                    ATTR_DISCOVERED \<mapsto> VRef a]]\<rparr>)"
  using assms
  by (simp add: load_platform_def discover_def setup_component_def emit_def)

theorem load_platform_updates_in_place_witness:
  "loader_ok (VStr ''media_player'') VNone = Inr True
   \<and> load_platform loader_ok (VStr ''media_player'') (VStr ''sonos'') (VRef 0) VNone scan_world =
       (Inr (),
        \<lparr>cells = (\<lambda>a. Map.empty)
                   (0 := [''host'' \<mapsto> VStr ''10.0.0.5'', ''load_platform'' \<mapsto> VStr ''sonos'']),
         next_free = 2,
         trace = [SetupComponent (VStr ''media_player'') VNone,
                  BusFire ''platform_discovered''
                    [''service'' \<mapsto> VStr ''load_platform.media_player'',
                     ''discovered'' \<mapsto> VRef 0]]\<rparr>)"
proof -
  have h: "loader_ok (VStr ''media_player'') VNone = Inr True"
    by (simp add: loader_ok_def)
  from load_platform_updates_in_place
         [where ldr = loader_ok and c = "''media_player''" and hass_config = VNone
            and b = True and platform = "VStr ''sonos''" and a = 0 and w = scan_world, OF h] h
  show ?thesis by (simp add: scan_world_def const_defs)
qed

text \<open>
  C4. Calling \<open>load_platform\<close> with a component name, any platform and \<open>info\<close> None, when
  the loader returns, fires exactly one event, and the dict under its \<open>discovered\<close> key is
  exactly \<^verbatim>\<open>{load_platform: platform}\<close>.
\<close>

theorem load_platform_without_info:
  assumes "ldr (VStr c) hass_config = Inr b"
  shows "\<exists>w' ev. load_platform ldr (VStr c) platform VNone hass_config w = (Inr (), w')
           \<and> events_fired (new_effects w w') = [ev]
           \<and> ev = BusFire EVENT_PLATFORM_DISCOVERED
                    [ATTR_SERVICE \<mapsto> VStr (LOAD_PLATFORM @ ''.'' @ c),
                     ATTR_DISCOVERED \<mapsto> VRef (next_free w)]
           \<and> discovered_content w' ev = Some [LOAD_PLATFORM \<mapsto> platform]"
  using assms
  by (simp add: load_platform_def new_dict_def discover_def setup_component_def emit_def
      new_effects_def events_fired_def)

theorem load_platform_without_info_witness:
  "loader_ok (VStr ''light'') VNone = Inr True
   \<and> (\<exists>w' ev. load_platform loader_ok (VStr ''light'') (VStr ''hue'') VNone VNone scan_world
                  = (Inr (), w')
         \<and> events_fired (new_effects scan_world w') = [ev]
         \<and> ev = BusFire EVENT_PLATFORM_DISCOVERED
                  [ATTR_SERVICE \<mapsto> VStr (LOAD_PLATFORM @ ''.'' @ ''light''),
                   ATTR_DISCOVERED \<mapsto> VRef (next_free scan_world)]
         \<and> discovered_content w' ev = Some [LOAD_PLATFORM \<mapsto> VStr ''hue''])"
proof -
  have h: "loader_ok (VStr ''light'') VNone = Inr True"
    by (simp add: loader_ok_def)
  from load_platform_without_info
         [where ldr = loader_ok and c = "''light''" and hass_config = VNone and b = True
            and platform = "VStr ''hue''" and w = scan_world, OF h] h
  show ?thesis by simp
qed

subsection \<open>Dispatch of an unknown service\<close>

text \<open>
  C5. For a service name that is not a key of the registry, the callback returns without
  raising, fires no event and loads no component: it takes the lock, logs and releases
  the lock.
\<close>

theorem unknown_service_ignored:
  assumes "map_of SERVICE_HANDLERS s = None"
  shows "new_service_listener ldr config (VStr s) info w =
           (Inr (), w\<lparr>trace := trace w @ [LockAcquire, LogInfo (VStr s) info, LockRelease]\<rparr>)
         \<and> events_fired
             (new_effects w (snd (new_service_listener ldr config (VStr s) info w))) = []
         \<and> component_loads
             (new_effects w (snd (new_service_listener ldr config (VStr s) info w))) = []"
  using assms
  by (simp add: new_service_listener_def new_service_listener_body_def handlers_get_def
      emit_def new_effects_def events_fired_def component_loads_def)

theorem unknown_service_ignored_witness:
  "map_of SERVICE_HANDLERS ''apple_tv'' = None
   \<and> new_service_listener loader_ok (VRef 1) (VStr ''apple_tv'') (VRef 0) scan_world =
       (Inr (),
        scan_world\<lparr>trace :=
          [LockAcquire, LogInfo (VStr ''apple_tv'') (VRef 0), LockRelease]\<rparr>)"
proof -
  have h: "map_of SERVICE_HANDLERS ''apple_tv'' = None"
    by (simp add: SERVICE_HANDLERS_def const_defs)
  from unknown_service_ignored
         [where s = "''apple_tv''" and ldr = loader_ok and config = "VRef 1"
            and info = "VRef 0" and w = scan_world, OF h] h
  show ?thesis by (simp add: scan_world_def)
qed

subsection \<open>Order of component load and event\<close>

text \<open>
  C7. In a call of \<open>discover\<close> with a component that is not None, and in every call of
  \<open>load_platform\<close>, an event is fired only after the component load was called, and only
  when that call returned: no event comes before the load in the trace.
\<close>

theorem component_loaded_before_event:
  "(component \<noteq> VNone \<longrightarrow>
      load_before_fire False
        (new_effects w (snd (discover ldr service discovered component hass_config w)))
      \<and> (events_fired
           (new_effects w (snd (discover ldr service discovered component hass_config w))) \<noteq> []
         \<longrightarrow> (\<exists>b. ldr component hass_config = Inr b)))
   \<and> load_before_fire False
        (new_effects w (snd (load_platform ldr component platform info hass_config w)))
   \<and> (events_fired
        (new_effects w (snd (load_platform ldr component platform info hass_config w))) \<noteq> []
      \<longrightarrow> (\<exists>b. ldr component hass_config = Inr b))"
proof -
  have d: "component \<noteq> VNone \<longrightarrow>
      load_before_fire False
        (new_effects w (snd (discover ldr service discovered component hass_config w)))
      \<and> (events_fired
           (new_effects w (snd (discover ldr service discovered component hass_config w))) \<noteq> []
         \<longrightarrow> (\<exists>b. ldr component hass_config = Inr b))"
    using discover_effects_ordered discover_effects_fired
    by (simp add: discover_new_effects)
  have l1: "load_before_fire False
        (new_effects w (snd (load_platform ldr component platform info hass_config w)))"
    by (cases info; cases component)
       (simp_all add: load_platform_new_effects discover_effects_ordered)
  have l2: "events_fired
        (new_effects w (snd (load_platform ldr component platform info hass_config w))) \<noteq> []
      \<longrightarrow> (\<exists>b. ldr component hass_config = Inr b)"
    by (cases info; cases component)
       (auto simp add: load_platform_new_effects events_fired_def
          dest!: discover_effects_fired [unfolded events_fired_def, rotated])
  from d l1 l2 show ?thesis by blast
qed

theorem component_loaded_before_event_witness:
  "VStr ''wemo'' \<noteq> VNone
   \<and> new_effects scan_world
       (snd (discover loader_ok (VStr ''belkin_wemo'') (VRef 0) (VStr ''wemo'') (VRef 1)
               scan_world)) =
       [SetupComponent (VStr ''wemo'') (VRef 1),
        BusFire EVENT_PLATFORM_DISCOVERED
          [ATTR_SERVICE \<mapsto> VStr ''belkin_wemo'', ATTR_DISCOVERED \<mapsto> VRef 0]]
   \<and> load_before_fire False
       (new_effects scan_world
          (snd (discover loader_ok (VStr ''belkin_wemo'') (VRef 0) (VStr ''wemo'') (VRef 1)
                  scan_world)))
   \<and> new_effects scan_world
       (snd (load_platform loader_ok (VStr ''light'') (VStr ''hue'') VNone (VRef 1)
               scan_world)) =
       [SetupComponent (VStr ''light'') (VRef 1),
        BusFire EVENT_PLATFORM_DISCOVERED
          [ATTR_SERVICE \<mapsto> VStr ''load_platform.light'', ATTR_DISCOVERED \<mapsto> VRef 2]]
   \<and> load_before_fire False
       (new_effects scan_world
          (snd (load_platform loader_ok (VStr ''light'') (VStr ''hue'') VNone (VRef 1)
                  scan_world)))"
proof -
  have h: "VStr ''wemo'' \<noteq> VNone" by simp
  have t1: "new_effects scan_world
       (snd (discover loader_ok (VStr ''belkin_wemo'') (VRef 0) (VStr ''wemo'') (VRef 1)
               scan_world)) =
       [SetupComponent (VStr ''wemo'') (VRef 1),
        BusFire EVENT_PLATFORM_DISCOVERED
          [ATTR_SERVICE \<mapsto> VStr ''belkin_wemo'', ATTR_DISCOVERED \<mapsto> VRef 0]]"
    by (simp add: discover_new_effects discover_effects_def event_data_def loader_ok_def)
  have t2: "new_effects scan_world
       (snd (load_platform loader_ok (VStr ''light'') (VStr ''hue'') VNone (VRef 1)
               scan_world)) =
       [SetupComponent (VStr ''light'') (VRef 1),
        BusFire EVENT_PLATFORM_DISCOVERED
          [ATTR_SERVICE \<mapsto> VStr ''load_platform.light'', ATTR_DISCOVERED \<mapsto> VRef 2]]"
    by (simp add: load_platform_new_effects discover_effects_def event_data_def loader_ok_def
        scan_world_def const_defs)
  from component_loaded_before_event
         [where component = "VStr ''wemo''" and w = scan_world and ldr = loader_ok
            and service = "VStr ''belkin_wemo''" and discovered = "VRef 0"
            and hass_config = "VRef 1"]
       component_loaded_before_event
         [where component = "VStr ''light''" and w = scan_world and ldr = loader_ok
            and platform = "VStr ''hue''" and info = VNone and hass_config = "VRef 1"]
       h t1 t2
  show ?thesis by blast
qed

subsection \<open>The listener of listen\<close>

lemma in_tuple_requested: "in_tuple v (service_tuple S) = (v \<in> VStr ` requested S)"
  by (cases S) (auto simp: in_tuple_def)

lemma listener_cases:
  "discovery_event_listener service callback data w =
     (case data ATTR_SERVICE of
        None \<Rightarrow> (Inr (), w)
      | Some v \<Rightarrow>
          if in_tuple v service
          then (Inr (), emit (Callback callback v (dict_get data ATTR_DISCOVERED)) w)
          else (Inr (), w))"
  by (simp add: discovery_event_listener_def has_key_def getitem_def split: option.splits)

text \<open>
  C6. \<open>listen\<close> registers one listener for PLATFORM_DISCOVERED. Run on an event whose
  \<open>service\<close> field is \<open>v\<close>, that listener calls the callback exactly once, with \<open>v\<close> and the
  event's \<open>discovered\<close> value, when \<open>v\<close> is one of the requested names, and does not call it
  otherwise.
\<close>

theorem listen_filters_by_service:
  assumes "data ATTR_SERVICE = Some v"
  shows "\<exists>h. new_effects w (listen S cb w) = [BusListen EVENT_PLATFORM_DISCOVERED h]
           \<and> run_handler h data w' =
               (Inr (),
                if v \<in> VStr ` requested S
                then emit (Callback cb v (dict_get data ATTR_DISCOVERED)) w'
                else w')"
  using assms
  by (simp add: listen_def new_effects_def emit_def listener_cases in_tuple_requested)

theorem listen_filters_by_service_witness:
  "event_a ATTR_SERVICE = Some (VStr ''a'')
   \<and> (\<exists>h. new_effects scan_world (listen (ServiceSeq [''a'', ''b'']) ''cb'' scan_world)
             = [BusListen EVENT_PLATFORM_DISCOVERED h]
         \<and> run_handler h event_a scan_world
             = (Inr (), emit (Callback ''cb'' (VStr ''a'') (VRef 0)) scan_world))
   \<and> event_c ATTR_SERVICE = Some (VStr ''c'')
   \<and> (\<exists>h. new_effects scan_world (listen (ServiceSeq [''a'', ''b'']) ''cb'' scan_world)
             = [BusListen EVENT_PLATFORM_DISCOVERED h]
         \<and> run_handler h event_c scan_world = (Inr (), scan_world))"
proof -
  have ha: "event_a ATTR_SERVICE = Some (VStr ''a'')"
    by (simp add: event_a_def const_defs)
  have hc: "event_c ATTR_SERVICE = Some (VStr ''c'')"
    by (simp add: event_c_def const_defs)
  have d: "dict_get event_a ATTR_DISCOVERED = VRef 0"
    by (simp add: event_a_def dict_get_def)
  from listen_filters_by_service
         [where data = event_a and v = "VStr ''a''" and w = scan_world
            and S = "ServiceSeq [''a'', ''b'']" and cb = "''cb''" and w' = scan_world, OF ha]
       listen_filters_by_service
         [where data = event_c and v = "VStr ''c''" and w = scan_world
            and S = "ServiceSeq [''a'', ''b'']" and cb = "''cb''" and w' = scan_world, OF hc]
       ha hc d
  show ?thesis by simp
qed

text \<open>
  C10. The listener never raises. On an event without the \<open>service\<close> key it does nothing;
  on an event whose \<open>service\<close> is requested and that has no \<open>discovered\<close> key it calls the
  callback with None as second argument.
\<close>

theorem listener_tolerates_missing_keys:
  "fst (discovery_event_listener service cb data w) = Inr ()
   \<and> (data ATTR_SERVICE = None \<longrightarrow> discovery_event_listener service cb data w = (Inr (), w))
   \<and> (data ATTR_SERVICE = Some v \<and> in_tuple v service \<and> data ATTR_DISCOVERED = None \<longrightarrow>
        discovery_event_listener service cb data w = (Inr (), emit (Callback cb v VNone) w))"
  by (simp add: listener_cases dict_get_def split: option.splits)

theorem listener_tolerates_missing_keys_witness:
  "event_without_service ATTR_SERVICE = None
   \<and> discovery_event_listener [''a'', ''b''] ''cb'' event_without_service scan_world
       = (Inr (), scan_world)
   \<and> event_without_discovered ATTR_SERVICE = Some (VStr ''a'')
   \<and> in_tuple (VStr ''a'') [''a'', ''b'']
   \<and> event_without_discovered ATTR_DISCOVERED = None
   \<and> discovery_event_listener [''a'', ''b''] ''cb'' event_without_discovered scan_world
       = (Inr (), emit (Callback ''cb'' (VStr ''a'') VNone) scan_world)"
proof -
  have h1: "event_without_service ATTR_SERVICE = None"
    by (simp add: event_without_service_def const_defs)
  have h2: "event_without_discovered ATTR_SERVICE = Some (VStr ''a'')"
    by (simp add: event_without_discovered_def)
  have h3: "in_tuple (VStr ''a'') [''a'', ''b'']"
    by (simp add: in_tuple_def)
  have h4: "event_without_discovered ATTR_DISCOVERED = None"
    by (simp add: event_without_discovered_def const_defs)
  from listener_tolerates_missing_keys
         [where service = "[''a'', ''b'']" and cb = "''cb''" and data = event_without_service
            and w = scan_world]
       listener_tolerates_missing_keys
         [where service = "[''a'', ''b'']" and cb = "''cb''" and data = event_without_discovered
            and w = scan_world and v = "VStr ''a''"]
       h1 h2 h3 h4
  show ?thesis by simp
qed

subsection \<open>The lock\<close>

lemma while_locked_held:
  "\<not> list_ex is_lock_op es \<Longrightarrow> while_locked True (es @ fs) = es @ while_locked True fs"
proof (induction es)
  case Nil
  then show ?case by simp
next
  case (Cons e es)
  then show ?case by (cases e) simp_all
qed

lemma body_trace:
  "\<exists>es. trace (snd (new_service_listener_body ldr config service info w)) =
           trace w @ LogInfo service info # es \<and> \<not> list_ex is_lock_op es"
proof (cases "handlers_get service")
  case (Inl e)
  then show ?thesis
    by (simp add: new_service_listener_body_def emit_def)
next
  case (Inr r)
  show ?thesis
  proof (cases r)
    case None
    with Inr show ?thesis
      by (simp add: new_service_listener_body_def emit_def)
  next
    case (Some route)
    show ?thesis
    proof (cases "opt_str (snd route) = VNone")
      case True
      with Inr Some show ?thesis
        by (simp add: new_service_listener_body_def discover_trace emit_simps
            discover_effects_no_lock)
    next
      case False
      have "trace (snd (load_platform ldr (VStr (fst route)) (opt_str (snd route))
                          (route_tuple route) config (emit (LogInfo service info) w))) =
            trace w @ [LogInfo service info]"
        by (simp add: load_platform_def route_tuple_def emit_def)
      with Inr Some False show ?thesis
        by (simp add: new_service_listener_body_def)
    qed
  qed
qed

text \<open>
  C9. The claim: the lock is held across the lookup and the decision only, and
  \<open>discover\<close> and \<open>load_platform\<close> run outside it. In the code both calls are inside
  \<^verbatim>\<open>with lock:\<close>. At \<^verbatim>\<open>new_service_listener("belkin_wemo", {"host": "10.0.0.5"})\<close> the
  component load and the event both happen while the lock is held.
\<close>

theorem wemo_dispatch_inside_lock:
  "events_fired
     (while_locked False
        (trace (snd (new_service_listener loader_ok (VRef 1) (VStr ''belkin_wemo'') (VRef 0)
                       scan_world)))) =
     [BusFire EVENT_PLATFORM_DISCOVERED
        [ATTR_SERVICE \<mapsto> VStr ''belkin_wemo'',
         ATTR_DISCOVERED \<mapsto> VTuple [VStr ''wemo'', VNone]]]
   \<and> component_loads
       (while_locked False
          (trace (snd (new_service_listener loader_ok (VRef 1) (VStr ''belkin_wemo'') (VRef 0)
                         scan_world)))) =
       [SetupComponent (VRef 1) VNone]"
  by (simp add: new_service_listener_def new_service_listener_body_def handlers_get_def
      SERVICE_HANDLERS_def const_defs opt_str_def route_tuple_def discover_def
      setup_component_def loader_ok_def emit_def scan_world_def events_fired_def
      component_loads_def)

text \<open>
  C9, amended. In every call of the callback the lock is taken first and released last,
  also when the body raises, and everything else the call does, the log entry, the
  component load and the event included, happens while the lock is held.
\<close>

theorem lock_held_across_dispatch:
  "\<exists>mid. new_effects w (snd (new_service_listener ldr config service info w)) =
           LockAcquire # mid @ [LockRelease]
         \<and> while_locked False (LockAcquire # mid @ [LockRelease]) = mid"
proof -
  obtain es where
    es: "trace (snd (new_service_listener_body ldr config service info (emit LockAcquire w))) =
           trace (emit LockAcquire w) @ LogInfo service info # es"
    and nl: "\<not> list_ex is_lock_op es"
    using body_trace by blast
  let ?mid = "LogInfo service info # es"
  have "new_effects w (snd (new_service_listener ldr config service info w)) =
          LockAcquire # ?mid @ [LockRelease]"
    using es
    by (simp add: new_service_listener_def new_effects_def emit_simps case_prod_beta)
  moreover have "while_locked False (LockAcquire # ?mid @ [LockRelease]) = ?mid"
    using while_locked_held [OF nl, of "[LockRelease]"] by simp
  ultimately show ?thesis by blast
qed

subsection \<open>The scan is started once\<close>

lemma run_handler_eq:
  "run_handler h data w = (Inr (), w\<lparr>trace := trace w @ handler_effects h data\<rparr>)"
  by (cases h) (simp_all add: listener_cases start_discovery_def emit_def split: option.splits)

lemma run_handlers_eq:
  "run_handlers hs data w =
     (Inr (), w\<lparr>trace := trace w @ concat (map (\<lambda>h. handler_effects h data) hs)\<rparr>)"
  by (induction hs arbitrary: w) (simp_all add: run_handler_eq)

lemma scans_started_append: "scans_started (es @ fs) = scans_started es + scans_started fs"
  by (simp add: scans_started_def)

lemma handler_scans:
  "scans_started (handler_effects h data) = (if is_start_discovery h then 1 else 0)"
  by (cases h) (simp_all add: scans_started_def split: option.splits)

lemma handlers_scans:
  "scans_started (concat (map (\<lambda>h. handler_effects h data) hs)) =
     length (filter is_start_discovery hs)"
  by (induction hs)
     (simp_all add: scans_started_append handler_scans, simp add: scans_started_def)

lemma bus_fire_scans:
  "scans_started (new_effects w (snd (fst (bus_fire t data b w)))) =
     length (filter (\<lambda>r. fst r = t) (scan_starters b))"
proof -
  let ?hs = "map (\<lambda>r. snd (snd r)) (filter (\<lambda>r. fst r = t) b)"
  have c: "length (filter is_start_discovery ?hs) =
        length (filter (\<lambda>r. fst r = t) (scan_starters b))"
    by (induction b) (simp_all add: scan_starters_def)
  have "new_effects w (snd (fst (bus_fire t data b w))) =
          concat (map (\<lambda>h. handler_effects h data) ?hs)"
    by (simp add: bus_fire_def run_handlers_eq new_effects_def)
  then show ?thesis
    using handlers_scans [of data ?hs] c by simp
qed

text \<open>
  C8. On a bus without a scan starter, \<open>discovery_setup\<close> returns True and registers
  \<open>start_discovery\<close> as a one-shot listener for the application-start event. The first
  application-start event then starts exactly one scan and leaves no scan starter on the
  bus; a second application-start event starts none.
\<close>

theorem scan_started_once:
  assumes "scan_starters b = []"
  shows "\<exists>w1 b1 r2 w2 b2 r3 w3 b3.
           discovery_setup True config w = (Inr True, w1)
         \<and> bus_after w w1 b = b1
         \<and> scan_starters b1 = [(EVENT_HOMEASSISTANT_START, True, StartDiscovery config)]
         \<and> bus_fire EVENT_HOMEASSISTANT_START data b1 w1 = ((r2, w2), b2)
         \<and> scans_started (new_effects w1 w2) = 1
         \<and> scan_starters b2 = []
         \<and> bus_fire EVENT_HOMEASSISTANT_START data' b2 w2 = ((r3, w3), b3)
         \<and> scans_started (new_effects w2 w3) = 0"
proof -
  let ?w1 = "snd (discovery_setup True config w)"
  let ?b1 = "bus_after w ?w1 b"
  let ?f2 = "bus_fire EVENT_HOMEASSISTANT_START data ?b1 ?w1"
  let ?f3 = "bus_fire EVENT_HOMEASSISTANT_START data' (snd ?f2) (snd (fst ?f2))"
  have s: "discovery_setup True config w = (Inr True, ?w1)"
    by (simp add: discovery_setup_def)
  have b1: "?b1 = b @ [(EVENT_HOMEASSISTANT_START, True, StartDiscovery config)]"
    by (simp add: bus_after_def discovery_setup_def new_effects_def emit_def)
  have st1: "scan_starters ?b1 = [(EVENT_HOMEASSISTANT_START, True, StartDiscovery config)]"
    using assms by (simp add: b1 scan_starters_def)
  have n2: "scans_started (new_effects ?w1 (snd (fst ?f2))) = 1"
    by (simp add: bus_fire_scans st1)
  have "scan_starters (snd ?f2) =
          filter (\<lambda>r. \<not> (fst r = EVENT_HOMEASSISTANT_START \<and> fst (snd r))) (scan_starters ?b1)"
    by (simp add: bus_fire_def scan_starters_def conj_commute)
  then have st2: "scan_starters (snd ?f2) = []"
    by (simp add: st1)
  have n3: "scans_started (new_effects (snd (fst ?f2)) (snd (fst ?f3))) = 0"
    by (simp add: bus_fire_scans st2)
  have e2: "?f2 = ((fst (fst ?f2), snd (fst ?f2)), snd ?f2)" by simp
  have e3: "?f3 = ((fst (fst ?f3), snd (fst ?f3)), snd ?f3)" by simp
  from s st1 e2 n2 st2 e3 n3 show ?thesis by blast
qed

theorem scan_started_once_witness:
  "scan_starters listening_bus = []
   \<and> (\<exists>w1 b1 r2 w2 b2 r3 w3 b3.
         discovery_setup True (VRef 1) scan_world = (Inr True, w1)
       \<and> bus_after scan_world w1 listening_bus = b1
       \<and> scan_starters b1 = [(EVENT_HOMEASSISTANT_START, True, StartDiscovery (VRef 1))]
       \<and> bus_fire EVENT_HOMEASSISTANT_START Map.empty b1 w1 = ((r2, w2), b2)
       \<and> scans_started (new_effects w1 w2) = 1
       \<and> scan_starters b2 = []
       \<and> bus_fire EVENT_HOMEASSISTANT_START Map.empty b2 w2 = ((r3, w3), b3)
       \<and> scans_started (new_effects w2 w3) = 0)"
proof -
  have h: "scan_starters listening_bus = []"
    by (simp add: scan_starters_def listening_bus_def)
  from scan_started_once
         [where b = listening_bus and config = "VRef 1" and w = scan_world
            and data = Map.empty and data' = Map.empty, OF h] h
  show ?thesis by simp
qed

end
